theory Spec2Isabelle
  imports Complex_Main
begin

section \<open>Arrays, shapes and dtypes\<close>

text \<open>
  The array backend (\<^verbatim>\<open>scico.numpy\<close>, \<^verbatim>\<open>jax\<close>) is a library the repository
  imports. Only what \<^verbatim>\<open>Function.__init__\<close> reads of it is modelled: an array has a
  shape, a dtype and its elements; a block array is an ordered tuple of arrays of
  independent shapes and dtypes. \<^verbatim>\<open>Shape\<close> is a tuple of ints, \<^verbatim>\<open>BlockShape\<close> a tuple
  of such tuples.
\<close>

datatype dtype = Float32 | Float64 | Complex64 | Complex128

datatype shp = Shape "nat list" | BlockShape "nat list list"

datatype dtypes = DType dtype | BlockDType "dtype list"

datatype 'e ndarray = NdArray (nd_shape: "nat list") (nd_dtype: dtype) (nd_data: "'e list")

datatype 'e array = JaxArray "'e ndarray" | BlockArray "'e ndarray list"

fun shape_of :: "'e array \<Rightarrow> shp" where
  "shape_of (JaxArray a) = Shape (nd_shape a)"
| "shape_of (BlockArray bs) = BlockShape (map nd_shape bs)"

fun dtype_of :: "'e array \<Rightarrow> dtypes" where
  "dtype_of (JaxArray a) = DType (nd_dtype a)"
| "dtype_of (BlockArray bs) = BlockDType (map nd_dtype bs)"

definition nd_zeros :: "nat list \<Rightarrow> dtype \<Rightarrow> ('e::zero) ndarray" where
  "nd_zeros s d = NdArray s d (replicate (prod_list s) 0)"

text \<open>\<^verbatim>\<open>snp.zeros(shape, dtype=dtype)\<close>: a block shape gives a block array of zeros.\<close>

fun zeros :: "shp \<Rightarrow> dtype \<Rightarrow> ('e::zero) array" where
  "zeros (Shape s) d = JaxArray (nd_zeros s d)"
| "zeros (BlockShape ss) d = BlockArray (map (\<lambda>s. nd_zeros s d) ss)"

section \<open>The Function base class (scico/function.py)\<close>

text \<open>
  Python exceptions, as far as the constructor is concerned: \<^verbatim>\<open>NotImplementedError\<close>
  with its message, which the constructor raises itself (lines 63-66) and which an
  evaluation function may raise as well, and the exceptions of every other class, of
  type \<open>'x\<close>.
\<close>

datatype 'x pyexc = NotImplementedError string | Exc 'x

text \<open>
  A Python callable taking \<^verbatim>\<open>*args\<close> is a function on the list of its arguments; it
  returns a value or raises (\<open>Inl\<close>) an exception.
\<close>

type_synonym ('e, 'x) callable = "'e array list \<Rightarrow> 'x pyexc + 'e array"

text \<open>
  \<^verbatim>\<open>input_dtypes: Union[DType, Sequence[DType]]\<close>: the constructor tests
  \<^verbatim>\<open>isinstance(input_dtypes, (list, tuple))\<close>.
\<close>

datatype dtype_arg = Single dtype | Seq "dtype list"

record ('e, 'x) Function =
  input_shapes :: "shp list"
  input_dtypes :: "dtype list"
  eval_method :: "('e, 'x) callable"
  output_shape :: shp
  output_dtype :: dtypes

text \<open>Lines 55-59: a single dtype is repeated once per input shape.\<close>

definition init_input_dtypes :: "shp list \<Rightarrow> dtype_arg \<Rightarrow> dtype list" where
  "init_input_dtypes ishapes idt =
     (case idt of Seq ds \<Rightarrow> ds | Single d \<Rightarrow> replicate (length ishapes) d)"

text \<open>
  Lines 61-66. The field \<open>eval_method\<close> is the attribute \<^verbatim>\<open>_eval\<close>.
  \<open>cls_eval\<close> is the \<^verbatim>\<open>_eval\<close> method the instance's class provides, if any
  (\<^verbatim>\<open>hasattr(self, "_eval")\<close>); an \<^verbatim>\<open>eval_fn\<close> argument shadows it. \<open>jax_jit\<close> is
  \<^verbatim>\<open>jax.jit\<close>, a parameter of the model.
\<close>

definition init_eval ::
  "(('e, 'x) callable \<Rightarrow> ('e, 'x) callable) \<Rightarrow> ('e, 'x) callable option \<Rightarrow>
   ('e, 'x) callable option \<Rightarrow> bool \<Rightarrow> ('e, 'x) callable option" where
  "init_eval jax_jit cls_eval eval_fn jit =
     (case eval_fn of
        Some f \<Rightarrow> Some (if jit then jax_jit f else f)
      | None \<Rightarrow> cls_eval)"

text \<open>Lines 71-74: the zip stops at the shorter of the two sequences.\<close>

definition init_zeros :: "shp list \<Rightarrow> dtype list \<Rightarrow> ('e::zero) array list" where
  "init_zeros ishapes idts = map (\<lambda>(s, d). zeros s d) (zip ishapes idts)"

definition abstract_msg :: string where
  "abstract_msg =
     ''Function is an abstract base class when the eval_fn parameter is not specified.''"

text \<open>
  \<^verbatim>\<open>Function.__init__\<close>, in the order of the source: the attributes are set, the
  evaluation function is chosen or the constructor raises, the function is evaluated on
  zeros when the output shape or dtype is missing, and each of the two is taken from the
  argument when it is given and from the evaluation's result otherwise. The test
  \<^verbatim>\<open>output_shape is None or output_dtype is None\<close> of line 70 is the second branch
  of the case: it is taken unless both are given. The call of line 75 stands in no
  \<^verbatim>\<open>try\<close>: an exception of the evaluation function leaves the constructor as it is.
\<close>

definition Function_init ::
  "(('e::zero, 'x) callable \<Rightarrow> ('e, 'x) callable) \<Rightarrow> ('e, 'x) callable option \<Rightarrow>
   shp list \<Rightarrow> shp option \<Rightarrow> ('e, 'x) callable option \<Rightarrow> dtype_arg \<Rightarrow> dtypes option \<Rightarrow>
   bool \<Rightarrow> 'x pyexc + ('e, 'x) Function" where
  "Function_init jax_jit cls_eval ishapes oshape eval_fn idt odt jit =
     (let idts = init_input_dtypes ishapes idt in
      case init_eval jax_jit cls_eval eval_fn jit of
        None \<Rightarrow> Inl (NotImplementedError abstract_msg)
      | Some ev \<Rightarrow>
          (case (oshape, odt) of
             (Some s, Some d) \<Rightarrow>
               Inr \<lparr>input_shapes = ishapes, input_dtypes = idts, eval_method = ev,
                    output_shape = s, output_dtype = d\<rparr>
           | _ \<Rightarrow>
               (case ev (init_zeros ishapes idts) of
                  Inl e \<Rightarrow> Inl e
                | Inr tmp \<Rightarrow>
                    Inr \<lparr>input_shapes = ishapes, input_dtypes = idts, eval_method = ev,
                         output_shape = (case oshape of None \<Rightarrow> shape_of tmp | Some s \<Rightarrow> s),
                         output_dtype = (case odt of None \<Rightarrow> dtype_of tmp | Some d \<Rightarrow> d)\<rparr>)))"

text \<open>Evaluation functions used at concrete inputs.\<close>

datatype other_exc = TypeError | ValueError

text \<open>\<^verbatim>\<open>lambda x: x\<close>: any other number of arguments is a TypeError.\<close>

definition lambda_id :: "(int, other_exc) callable" where
  "lambda_id args = (case args of [a] \<Rightarrow> Inr a | _ \<Rightarrow> Inl (Exc TypeError))"

text \<open>\<^verbatim>\<open>lambda x, y: x\<close>.\<close>

definition lambda_fst :: "(int, other_exc) callable" where
  "lambda_fst args = (case args of [a, b] \<Rightarrow> Inr a | _ \<Rightarrow> Inl (Exc TypeError))"

text \<open>\<^verbatim>\<open>lambda x, y: y\<close>.\<close>

definition lambda_snd :: "(int, other_exc) callable" where
  "lambda_snd args = (case args of [a, b] \<Rightarrow> Inr b | _ \<Rightarrow> Inl (Exc TypeError))"

text \<open>
  \<^verbatim>\<open>lambda x: x.ravel()\<close>: the elements of the array in one dimension, so the shape of
  the result is the number of elements.
\<close>

definition nd_ravel :: "'e ndarray \<Rightarrow> 'e ndarray" where
  "nd_ravel a = NdArray [length (nd_data a)] (nd_dtype a) (nd_data a)"

definition lambda_ravel :: "(int, other_exc) callable" where
  "lambda_ravel args =
     (case args of
        [JaxArray a] \<Rightarrow> Inr (JaxArray (nd_ravel a))
      | [BlockArray bs] \<Rightarrow> Inr (BlockArray (map nd_ravel bs))
      | _ \<Rightarrow> Inl (Exc TypeError))"

text \<open>A callable that raises \<^verbatim>\<open>ValueError\<close> whenever it is called.\<close>

definition lambda_raise :: "(int, other_exc) callable" where
  "lambda_raise args = Inl (Exc ValueError)"


section \<open>Iteration statistics of the training loop (scico/flax/train/train.py)\<close>

text \<open>
  \<^verbatim>\<open>stats_obj\<close> (lines 518-560) joins attribute names into the text of a function
  definition, runs it with \<^verbatim>\<open>exec\<close>, and takes the function out of the scope the
  definition was executed in. The embedding keeps the text: the string is built as the
  source builds it, and \<open>exec\<close> parses it. Of Python, \<open>exec\<close> covers what this template
  can produce: one \<^verbatim>\<open>def NAME(PARAM): return(...)\<close> whose returned expression is an
  attribute reference \<^verbatim>\<open>NAME.ATTR\<close> or a parenthesised tuple of them; any other text is
  a \<open>SyntaxError\<close>.
\<close>

datatype exec_error =
    SyntaxError | NameError string | AttributeError string | KeyError string
  | UnexpectedKeyword string | MissingArgument string | NotCallable

text \<open>\<^verbatim>\<open>sep.join(xs)\<close>.\<close>

fun join :: "string \<Rightarrow> string list \<Rightarrow> string" where
  "join sep [] = []"
| "join sep [x] = x"
| "join sep (x # y # ys) = x @ sep @ join sep (y # ys)"

text \<open>Lines 529-546. A dict keeps the order of insertion: an association list.\<close>

definition itstat_fields :: "(string \<times> string) list" where
  "itstat_fields =
     [(''Epoch'', ''%d''), (''Time'', ''%8.2e''), (''Train LR'', ''%.6f''),
      (''Train Loss'', ''%.6f''), (''Train SNR'', ''%.2f''), (''Eval Loss'', ''%.6f''),
      (''Eval SNR'', ''%.2f'')]"

definition itstat_attrib :: "string list" where
  "itstat_attrib =
     [''epoch'', ''time'', ''train_learning_rate'', ''train_loss'', ''train_snr'',
      ''loss'', ''snr'']"

text \<open>Line 549.\<close>

definition itstat_return :: string where
  "itstat_return =
     ''return('' @ join '', '' (map (\<lambda>attr. ''obj.'' @ attr) itstat_attrib) @ '')''"

text \<open>Line 551: the text given to \<^verbatim>\<open>exec\<close>.\<close>

definition itstat_source :: string where
  "itstat_source = ''def itstat_func(obj): '' @ itstat_return"

text \<open>The syntax tree of a parsed definition.\<close>

datatype attr_expr = Attribute string string
datatype ret_expr = Expr attr_expr | TupleExpr "attr_expr list"
datatype pyfunc = FunctionDef (fn_name: string) (fn_param: string) (fn_returns: ret_expr)

text \<open>The lexical tests: ASCII letters, digits and the underscore; blanks.\<close>

definition is_ident_char :: "char \<Rightarrow> bool" where
  "is_ident_char c =
     (let n = (of_char c :: nat) in
      (97 \<le> n \<and> n \<le> 122) \<or> (65 \<le> n \<and> n \<le> 90) \<or> (48 \<le> n \<and> n \<le> 57) \<or> n = 95)"

definition is_space :: "char \<Rightarrow> bool" where
  "is_space c = (c = CHR '' '')"

definition strip :: "string \<Rightarrow> string" where
  "strip s = rev (dropWhile is_space (rev (dropWhile is_space s)))"

definition expect :: "string \<Rightarrow> string \<Rightarrow> string option" where
  "expect p s = (if take (length p) s = p then Some (drop (length p) s) else None)"

definition is_identifier :: "string \<Rightarrow> bool" where
  "is_identifier s = (s \<noteq> [] \<and> list_all is_ident_char s \<and>
      \<not> (48 \<le> (of_char (hd s) :: nat) \<and> (of_char (hd s) :: nat) \<le> 57))"

text \<open>\<^verbatim>\<open>s.split(c)\<close>: an empty text gives one empty piece.\<close>

fun split_on :: "char \<Rightarrow> string \<Rightarrow> string list" where
  "split_on c [] = [[]]"
| "split_on c (x # xs) =
     (if x = c then [] # split_on c xs
      else (case split_on c xs of w # ws \<Rightarrow> (x # w) # ws | [] \<Rightarrow> [[x]]))"

text \<open>One element of the returned tuple: \<^verbatim>\<open>NAME.ATTR\<close>, blanks around it ignored.\<close>

definition parse_attr :: "string \<Rightarrow> attr_expr option" where
  "parse_attr s =
     (case split_on CHR ''.'' (strip s) of
        [n, a] \<Rightarrow> if is_identifier n \<and> is_identifier a then Some (Attribute n a) else None
      | _ \<Rightarrow> None)"

fun those_list :: "'a option list \<Rightarrow> 'a list option" where
  "those_list [] = Some []"
| "those_list (x # xs) =
     (case x of None \<Rightarrow> None
      | Some y \<Rightarrow> (case those_list xs of None \<Rightarrow> None | Some ys \<Rightarrow> Some (y # ys)))"

text \<open>
  The body \<^verbatim>\<open>return(e1, ..., en)\<close>. As in Python, parentheses around one expression
  with no comma are that expression, not a tuple, and \<^verbatim>\<open>()\<close> is the empty tuple.
\<close>

definition parse_return :: "string \<Rightarrow> ret_expr option" where
  "parse_return s =
     (case expect ''return'' (strip s) of
        None \<Rightarrow> None
      | Some r \<Rightarrow>
          (let e = strip r in
           if e \<noteq> [] \<and> hd e = CHR ''('' \<and> last e = CHR '')'' then
             (let inner = butlast (tl e) in
              if strip inner = [] then Some (TupleExpr [])
              else (case those_list (map parse_attr (split_on CHR '','' inner)) of
                      None \<Rightarrow> None
                    | Some [a] \<Rightarrow> Some (Expr a)
                    | Some as \<Rightarrow> Some (TupleExpr as)))
           else None))"

text \<open>The whole statement \<^verbatim>\<open>def NAME(PARAM): BODY\<close>.\<close>

definition parse_def :: "string \<Rightarrow> pyfunc option" where
  "parse_def s =
     (case expect ''def '' s of
        None \<Rightarrow> None
      | Some r \<Rightarrow>
          (let name = takeWhile is_ident_char (strip r);
               r1 = dropWhile is_ident_char (strip r)
           in case expect ''('' r1 of
                None \<Rightarrow> None
              | Some r2 \<Rightarrow>
                  (let param = takeWhile is_ident_char r2;
                       r3 = dropWhile is_ident_char r2
                   in case expect ''):'' r3 of
                        None \<Rightarrow> None
                      | Some body \<Rightarrow>
                          (if is_identifier name \<and> is_identifier param then
                             map_option (FunctionDef name param) (parse_return body)
                           else None))))"


text \<open>
  \<^verbatim>\<open>exec(src, scope)\<close> binds the function's name in \<open>scope\<close>; \<^verbatim>\<open>scope[k]\<close> raises
  \<^verbatim>\<open>KeyError\<close> for a name that is not bound.
\<close>

definition exec :: "string \<Rightarrow> (string \<rightharpoonup> pyfunc) \<Rightarrow> exec_error + (string \<rightharpoonup> pyfunc)" where
  "exec src scope =
     (case parse_def src of
        None \<Rightarrow> Inl SyntaxError
      | Some f \<Rightarrow> Inr (scope(fn_name f \<mapsto> f)))"

definition getitem :: "(string \<rightharpoonup> 'a) \<Rightarrow> string \<Rightarrow> exec_error + 'a" where
  "getitem d k = (case d k of None \<Rightarrow> Inl (KeyError k) | Some v \<Rightarrow> Inr v)"

text \<open>
  An object is the map of its attributes (\<^verbatim>\<open>ArgumentStruct\<close>, lines 508-515, fills
  \<^verbatim>\<open>__dict__\<close> from its keyword arguments); reading a missing attribute raises
  \<^verbatim>\<open>AttributeError\<close>. A call returns one value or a tuple.
\<close>

type_synonym 'v pyobject = "string \<rightharpoonup> 'v"

datatype 'v pyvalue = Val 'v | Tuple "'v list"

definition getattr :: "'v pyobject \<Rightarrow> string \<Rightarrow> exec_error + 'v" where
  "getattr obj a = (case obj a of None \<Rightarrow> Inl (AttributeError a) | Some v \<Rightarrow> Inr v)"

text \<open>
  Calling the parsed function: the only name in scope is the parameter; the elements of
  a tuple are evaluated from left to right and the first exception ends the call.
\<close>

fun eval_attr :: "string \<Rightarrow> 'v pyobject \<Rightarrow> attr_expr \<Rightarrow> exec_error + 'v" where
  "eval_attr param arg (Attribute n a) =
     (if n = param then getattr arg a else Inl (NameError n))"

fun eval_attrs :: "string \<Rightarrow> 'v pyobject \<Rightarrow> attr_expr list \<Rightarrow> exec_error + 'v list" where
  "eval_attrs param arg [] = Inr []"
| "eval_attrs param arg (e # es) =
     (case eval_attr param arg e of
        Inl x \<Rightarrow> Inl x
      | Inr v \<Rightarrow>
          (case eval_attrs param arg es of
             Inl x \<Rightarrow> Inl x
           | Inr vs \<Rightarrow> Inr (v # vs)))"

definition call_func :: "pyfunc \<Rightarrow> 'v pyobject \<Rightarrow> exec_error + 'v pyvalue" where
  "call_func f arg =
     (case fn_returns f of
        Expr e \<Rightarrow>
          (case eval_attr (fn_param f) arg e of Inl x \<Rightarrow> Inl x | Inr v \<Rightarrow> Inr (Val v))
      | TupleExpr es \<Rightarrow>
          (case eval_attrs (fn_param f) arg es of Inl x \<Rightarrow> Inl x | Inr vs \<Rightarrow> Inr (Tuple vs)))"

text \<open>
  The values of the options dict of lines 552-556, and the call of one of them
  (line 738 calls what line 557 popped).
\<close>

datatype optval = Fields "(string \<times> string) list" | Func pyfunc | Flag bool | Period nat

definition call :: "optval \<Rightarrow> 'v pyobject \<Rightarrow> exec_error + 'v pyvalue" where
  "call c arg = (case c of Func f \<Rightarrow> call_func f arg | _ \<Rightarrow> Inl NotCallable)"

text \<open>\<^verbatim>\<open>d.pop(k)\<close>: the value and the dict without the key.\<close>

definition dict_pop ::
  "string \<Rightarrow> (string \<times> 'a) list \<Rightarrow> exec_error + ('a \<times> (string \<times> 'a) list)" where
  "dict_pop k d =
     (case map_of d k of
        None \<Rightarrow> Inl (KeyError k)
      | Some v \<Rightarrow> Inr (v, filter (\<lambda>kv. fst kv \<noteq> k) d))"

text \<open>
  Modelled from the spec: the constructor of \<^verbatim>\<open>scico.diagnostics.IterationStats\<close>, a
  class of this repository that is not among the source files. The spec (sections 4.4
  and 6) has the recorder keep an ordered mapping from field name to print format, a
  display switch and a print period, and retain the history of inserted tuples;
  \<^verbatim>\<open>fieldname\<close> (read by the tests) is the list of field names in order.
\<close>

record 'v IterationStats =
  ist_fields :: "(string \<times> string) list"
  ist_display :: bool
  ist_period :: "nat option"
  iterations :: "'v list list"

definition fieldname :: "'v IterationStats \<Rightarrow> string list" where
  "fieldname io = map fst (ist_fields io)"

definition IterationStats_init :: "(string \<times> optval) list \<Rightarrow> exec_error + 'v IterationStats" where
  "IterationStats_init kwargs =
     (case find (\<lambda>k. k \<notin> set [''fields'', ''display'', ''period'']) (map fst kwargs) of
        Some k \<Rightarrow> Inl (UnexpectedKeyword k)
      | None \<Rightarrow>
          (case map_of kwargs ''fields'' of
             Some (Fields fs) \<Rightarrow>
               Inr \<lparr>ist_fields = fs,
                    ist_display = (case map_of kwargs ''display'' of Some (Flag b) \<Rightarrow> b | _ \<Rightarrow> False),
                    ist_period = (case map_of kwargs ''period'' of Some (Period n) \<Rightarrow> Some n | _ \<Rightarrow> None),
                    iterations = []\<rparr>
           | _ \<Rightarrow> Inl (MissingArgument ''fields'')))"

text \<open>Lines 552-560.\<close>

definition default_itstat_options :: "pyfunc \<Rightarrow> (string \<times> optval) list" where
  "default_itstat_options f =
     [(''fields'', Fields itstat_fields), (''itstat_func'', Func f), (''display'', Flag True)]"

definition stats_obj :: "exec_error + ('v IterationStats \<times> optval)" where
  "stats_obj =
     (case exec itstat_source Map.empty of
        Inl e \<Rightarrow> Inl e
      | Inr scope \<Rightarrow>
          (case getitem scope ''itstat_func'' of
             Inl e \<Rightarrow> Inl e
           | Inr f \<Rightarrow>
               (case dict_pop ''itstat_func'' (default_itstat_options f) of
                  Inl e \<Rightarrow> Inl e
                | Inr (itstat_insert_func, opts) \<Rightarrow>
                    (case IterationStats_init opts of
                       Inl e \<Rightarrow> Inl e
                     | Inr itstat_object \<Rightarrow> Inr (itstat_object, itstat_insert_func)))))"

text \<open>The syntax tree of the generated function.\<close>

definition itstat_func_ast :: pyfunc where
  "itstat_func_ast = FunctionDef ''itstat_func'' ''obj''
   (TupleExpr [Attribute ''obj'' ''epoch'', Attribute ''obj'' ''time'', Attribute ''obj'' ''train_learning_rate'',
   Attribute ''obj'' ''train_loss'', Attribute ''obj'' ''train_snr'', Attribute ''obj'' ''loss'', Attribute ''obj'' ''snr''])"

section \<open>The nonlinear proximal ADMM solver (spec sections 3, 4.1, 4.3, 4.4, 5)\<close>

text \<open>
  Modelled from the spec: \<^verbatim>\<open>scico.optimize.NonLinearPADMM\<close> and the base iterative
  algorithm it builds on are classes of this repository that are not among the source
  files (only their test, \<^verbatim>\<open>test_nlpadmm.py\<close>, is). Every definition of this section
  follows the words of the spec, sections 3, 4.1, 4.3, 4.4 and 5.
\<close>

text \<open>
  Modelled from the spec: the configuration errors of spec section 7 that the
  constructor raises (non-positive iteration count, non-positive penalty, field count
  against the arity of \<^verbatim>\<open>itstat_func\<close>).
\<close>

datatype config_error = NonPositiveMaxiter | NonPositivePenalty | FieldCountMismatch

text \<open>
  Modelled from the spec: the solver state of spec section 3: the primal iterate,
  the split variable and the scaled dual variable, the iteration index, the history of
  statistics (in the recorder), the hyperparameters of section 4.3, the mutable flag of
  section 4.1 (e) by which a callback asks for early termination, and the attributes
  a caller or callback sets on the object (\<^verbatim>\<open>test_flag\<close> in the test). Wall-clock time is
  not part of the model. \<open>'v\<close> is the type of numeric values, \<open>'w\<close> of statistics.
\<close>

record ('v, 'a, 'w) solver =
  primal_x :: 'v
  split_z :: 'v
  dual_u :: 'v
  itnum :: nat
  maxiter :: nat
  rho :: real
  mu :: real
  nu :: real
  stop_flag :: bool
  itstat_object :: "'w IterationStats"
  attrs :: "string \<rightharpoonup> 'a"

text \<open>
  Modelled from the spec: the collaborators of section 4.3, which the spec leaves
  opaque: the subproblem solver of the x-update, the linearised point of the z-update
  (the damped gradient step whose formula the spec does not give), the proximal operator
  of \<open>g\<close>, the coupling residual \<open>H\<close>, and addition of numeric values.
\<close>

record 'v problem =
  x_update :: "real \<Rightarrow> 'v \<Rightarrow> 'v \<Rightarrow> 'v \<Rightarrow> 'v"
  z_linearize :: "real \<Rightarrow> real \<Rightarrow> real \<Rightarrow> 'v \<Rightarrow> 'v \<Rightarrow> 'v \<Rightarrow> 'v"
  g_prox :: "'v \<Rightarrow> real \<Rightarrow> 'v"
  coupling_H :: "'v \<Rightarrow> 'v \<Rightarrow> 'v"
  vec_add :: "'v \<Rightarrow> 'v \<Rightarrow> 'v"

text \<open>
  Modelled from the spec: the statistics configuration of sections 4.1 and 6 that is
  in force (the caller's, or the solver's default): the fields mapping, the function
  computing the tuple of field values from the solver, and the display switch.
\<close>

record ('v, 'a, 'w) itstat_options =
  opt_fields :: "(string \<times> string) list"
  opt_itstat_func :: "('v, 'a, 'w) solver \<Rightarrow> 'w list"
  opt_display :: bool

text \<open>
  Modelled from the spec: construction (sections 4.1, 4.3, 7). The state is created
  from the initial values with the counter at zero and the flag down; the constructor
  fails when the maximum iteration count is not positive, when a penalty parameter is
  not positive, or when the number of fields differs from the length of the tuple
  \<^verbatim>\<open>itstat_func\<close> returns.
\<close>

definition NonLinearPADMM_init ::
  "('v, 'a, 'w) itstat_options \<Rightarrow> real \<Rightarrow> real \<Rightarrow> real \<Rightarrow> 'v \<Rightarrow> 'v \<Rightarrow> 'v \<Rightarrow> int \<Rightarrow>
   config_error + ('v, 'a, 'w) solver" where
  "NonLinearPADMM_init opts r m n x0 z0 u0 mxit =
     (let s = \<lparr>primal_x = x0, split_z = z0, dual_u = u0, itnum = 0, maxiter = nat mxit,
               rho = r, mu = m, nu = n, stop_flag = False,
               itstat_object = \<lparr>ist_fields = opt_fields opts, ist_display = opt_display opts,
                                 ist_period = None, iterations = []\<rparr>,
               attrs = Map.empty\<rparr>
      in if mxit \<le> 0 then Inl NonPositiveMaxiter
         else if r \<le> 0 \<or> m \<le> 0 \<or> n \<le> 0 then Inl NonPositivePenalty
         else if length (opt_itstat_func opts s) = length (opt_fields opts) then Inr s
         else Inl FieldCountMismatch)"

text \<open>
  Modelled from the spec: one step, section 4.3: X_UPDATE (delegated to the subproblem
  solver), Z_UPDATE (the proximal operator of \<open>g\<close> at the linearised point, step
  \<open>1/\<mu>\<close>), DUAL_UPDATE (\<open>u \<leftarrow> u + H(x, z)\<close>).
\<close>

definition step :: "'v problem \<Rightarrow> ('v, 'a, 'w) solver \<Rightarrow> ('v, 'a, 'w) solver" where
  "step P s =
     (let x' = x_update P (rho s) (primal_x s) (split_z s) (dual_u s);
          z' = g_prox P (z_linearize P (rho s) (mu s) (nu s) x' (split_z s) (dual_u s)) (1 / mu s);
          u' = vec_add P (dual_u s) (coupling_H P x' z')
      in s\<lparr>primal_x := x', split_z := z', dual_u := u'\<rparr>)"

text \<open>
  Modelled from the spec: the recorder's insert operation, section 4.4: the tuple is
  appended to the history.
\<close>

definition insert_row :: "'w list \<Rightarrow> 'w IterationStats \<Rightarrow> 'w IterationStats" where
  "insert_row row io = io\<lparr>iterations := iterations io @ [row]\<rparr>"

text \<open>
  Modelled from the spec: one iteration of \<^verbatim>\<open>solve\<close>, section 4.1: (a) one step,
  (b) the counter is incremented, (c) the statistics are computed and recorded,
  (d) the callback, when there is one, is called with the solver object; what it
  returns is the object the loop goes on with.
\<close>

definition iteration ::
  "'v problem \<Rightarrow> (('v, 'a, 'w) solver \<Rightarrow> 'w list) \<Rightarrow>
   (('v, 'a, 'w) solver \<Rightarrow> ('v, 'a, 'w) solver) option \<Rightarrow>
   ('v, 'a, 'w) solver \<Rightarrow> ('v, 'a, 'w) solver" where
  "iteration P sf cb s =
     (let s1 = step P s;
          s2 = s1\<lparr>itnum := Suc (itnum s1)\<rparr>;
          s3 = s2\<lparr>itstat_object := insert_row (sf s2) (itstat_object s2)\<rparr>
      in case cb of None \<Rightarrow> s3 | Some c \<Rightarrow> c s3)"

text \<open>
  Modelled from the spec: the loop of \<^verbatim>\<open>solve\<close>. It has a fixed budget of iterations
  (section 2: "iterates to a fixed iteration budget (or until an external stopping
  signal)"); the flag a callback may set is read at the top of the next iteration
  (section 5).
\<close>

fun run ::
  "nat \<Rightarrow> 'v problem \<Rightarrow> (('v, 'a, 'w) solver \<Rightarrow> 'w list) \<Rightarrow>
   (('v, 'a, 'w) solver \<Rightarrow> ('v, 'a, 'w) solver) option \<Rightarrow>
   ('v, 'a, 'w) solver \<Rightarrow> ('v, 'a, 'w) solver" where
  "run 0 P sf cb s = s"
| "run (Suc n) P sf cb s = (if stop_flag s then s else run n P sf cb (iteration P sf cb s))"

text \<open>
  Modelled from the spec: \<^verbatim>\<open>solve(callback=None)\<close>, section 4.1: it "runs iterations
  from the current counter up to the maximum" and returns the final primal iterate; the
  second component is the solver object as the call leaves it.
\<close>

definition solve ::
  "'v problem \<Rightarrow> (('v, 'a, 'w) solver \<Rightarrow> 'w list) \<Rightarrow>
   (('v, 'a, 'w) solver \<Rightarrow> ('v, 'a, 'w) solver) option \<Rightarrow>
   ('v, 'a, 'w) solver \<Rightarrow> 'v \<times> ('v, 'a, 'w) solver" where
  "solve P sf cb s = (let s' = run (maxiter s - itnum s) P sf cb s in (primal_x s', s'))"

text \<open>
  The scenario of \<^verbatim>\<open>TestMisc\<close> in \<^verbatim>\<open>test_nlpadmm.py\<close> (lines 11-23, 61-80), over integers:
  \<^verbatim>\<open>H = lambda x, z: x - z\<close>, zero initial values, \<^verbatim>\<open>maxiter = 2\<close>, all penalties 1, and the
  callback that sets \<^verbatim>\<open>test_flag\<close>.
\<close>

definition test_problem :: "int problem" where
  "test_problem =
     \<lparr>x_update = (\<lambda>r x z u. x), z_linearize = (\<lambda>r m n x z u. z), g_prox = (\<lambda>v t. v),
      coupling_H = (\<lambda>x z. x - z), vec_add = (\<lambda>a b. a + b)\<rparr>"

definition test_itstat_func :: "(int, bool, nat) solver \<Rightarrow> nat list" where
  "test_itstat_func obj = [itnum obj]"

definition test_options :: "(int, bool, nat) itstat_options" where
  "test_options =
     \<lparr>opt_fields = [(''Iter'', ''%d'')], opt_itstat_func = test_itstat_func,
      opt_display = False\<rparr>"

definition test_solver :: "(int, bool, nat) solver" where
  "test_solver =
     \<lparr>primal_x = 0, split_z = 0, dual_u = 0, itnum = 0, maxiter = 2,
      rho = 1, mu = 1, nu = 1, stop_flag = False,
      itstat_object = \<lparr>ist_fields = [(''Iter'', ''%d'')], ist_display = False,
                        ist_period = None, iterations = []\<rparr>,
      attrs = Map.empty\<rparr>"

definition test_callback :: "(int, bool, nat) solver \<Rightarrow> (int, bool, nat) solver" where
  "test_callback obj = obj\<lparr>attrs := (attrs obj)(''test_flag'' \<mapsto> True)\<rparr>"

text \<open>
  A callback that counts its calls: \<^verbatim>\<open>def callback(obj): obj.x = obj.x + 1\<close>. The
  x-update of \<open>test_problem\<close> leaves \<open>x\<close> as it is, so after \<^verbatim>\<open>solve\<close> the primal iterate
  is the number of times the callback was called.
\<close>

definition count_callback :: "(int, bool, nat) solver \<Rightarrow> (int, bool, nat) solver" where
  "count_callback obj = obj\<lparr>primal_x := primal_x obj + 1\<rparr>"

section \<open>Properties of Function.__init__\<close>

lemmas Function_init_defs =
  Function_init_def init_eval_def init_input_dtypes_def init_zeros_def




text \<open>
  Claim C9, as stated, fails: a list of dtypes is stored as it is given (line 57), with no
  check of its length, and the zip of line 73 stops at the shorter sequence. With two
  input shapes, the list \<^verbatim>\<open>[float32]\<close> and \<^verbatim>\<open>eval_fn = lambda x: x\<close> the constructor
  succeeds and the two attributes have lengths 1 and 2.
\<close>

theorem Function_init_dtypes_length_counterexample:
  "(case Function_init id None [Shape [2], Shape [3]] None (Some lambda_id)
           (Seq [Float32]) None False of
      Inl e \<Rightarrow> False
    | Inr F \<Rightarrow> length (input_dtypes F) = 1 \<and> length (input_shapes F) = 2 \<and>
               length (input_dtypes F) \<noteq> length (input_shapes F))"
  by (simp add: Function_init_defs lambda_id_def)

text \<open>
  Claim C9, amended. For every successfully constructed Function the input shapes are
  stored as given; when \<^verbatim>\<open>input_dtypes\<close> is a single dtype it is repeated once per
  input shape, so the two attributes have the same length and every element is that
  dtype; when it is a list or tuple it is stored unchanged, so the lengths agree exactly
  when the caller gave one dtype per input shape.
\<close>

theorem Function_init_input_dtypes:
  assumes "Function_init jax_jit cls_eval ishapes oshape eval_fn idt odt jit = Inr F"
  shows "input_shapes F = ishapes \<and>
         (case idt of
            Single d \<Rightarrow>
              input_dtypes F = replicate (length (input_shapes F)) d \<and>
              length (input_dtypes F) = length (input_shapes F) \<and>
              (\<forall>i < length (input_dtypes F). input_dtypes F ! i = d)
          | Seq ds \<Rightarrow>
              input_dtypes F = ds \<and>
              (length (input_dtypes F) = length (input_shapes F)
                 \<longleftrightarrow> length ds = length ishapes))"
  using assms
  by (auto simp: Function_init_def init_eval_def init_input_dtypes_def Let_def
           split: option.splits sum.splits prod.splits dtype_arg.splits)

theorem Function_init_input_dtypes_witness:
  "Function_init id None [Shape [2], Shape [3]] None (Some lambda_fst)
       (Single Float32) None False
     = Inr \<lparr>input_shapes = [Shape [2], Shape [3]], input_dtypes = [Float32, Float32],
            eval_method = lambda_fst, output_shape = Shape [2],
            output_dtype = DType Float32\<rparr>
   \<and> length [Float32, Float32] = length [Shape [2], Shape [3]]"
proof -
  let ?F = "\<lparr>input_shapes = [Shape [2], Shape [3]], input_dtypes = [Float32, Float32],
            eval_method = lambda_fst, output_shape = Shape [2],
            output_dtype = DType Float32\<rparr>"
  have h: "Function_init id None [Shape [2], Shape [3]] None (Some lambda_fst)
             (Single Float32) None False = Inr ?F"
    by (simp add: Function_init_defs lambda_fst_def nd_zeros_def)
  from Function_init_input_dtypes [OF h] have "length (input_dtypes ?F) = length (input_shapes ?F)"
    by simp
  with h show ?thesis by simp
qed

lemma init_zeros_length:
  "length (init_zeros ishapes idts) = min (length ishapes) (length idts)"
  by (simp add: init_zeros_def)

lemma init_zeros_nth:
  assumes "i < min (length ishapes) (length idts)"
  shows "init_zeros ishapes idts ! i =
           (case ishapes ! i of
              Shape s \<Rightarrow> JaxArray (NdArray s (idts ! i) (replicate (prod_list s) 0))
            | BlockShape ss \<Rightarrow>
                BlockArray (map (\<lambda>s. NdArray s (idts ! i) (replicate (prod_list s) 0)) ss))"
proof -
  from assms have "init_zeros ishapes idts ! i = zeros (ishapes ! i) (idts ! i)"
    by (simp add: init_zeros_def)
  then show ?thesis
    by (cases "ishapes ! i") (simp_all add: nd_zeros_def)
qed

lemma shape_of_cases:
  "shape_of a =
     (case a of JaxArray n \<Rightarrow> Shape (nd_shape n)
              | BlockArray bs \<Rightarrow> BlockShape (map nd_shape bs))"
  by (cases a) simp_all

lemma dtype_of_cases:
  "dtype_of a =
     (case a of JaxArray n \<Rightarrow> DType (nd_dtype n)
              | BlockArray bs \<Rightarrow> BlockDType (map nd_dtype bs))"
  by (cases a) simp_all

text \<open>
  Claim C10. On a successful construction: when \<^verbatim>\<open>output_shape\<close> is \<^verbatim>\<open>None\<close> the stored
  output shape is the shape of the value of the evaluation function on the zero arrays
  of the stored input shapes and dtypes, and when it is given it is stored unchanged;
  the same for \<^verbatim>\<open>output_dtype\<close>. When both are given the evaluation function is not
  called: the constructor succeeds with the given values whatever the function would do.
  The remaining conjuncts say what the objects of the first two are. The stored shapes
  and dtypes are the declared ones and the stored evaluation function is the one chosen
  on lines 61-66. The arguments of the evaluation are one array per pair of the zip of
  line 73: the \<open>i\<close>-th has the \<open>i\<close>-th declared shape, the \<open>i\<close>-th declared dtype
  (in every block, for a block shape) and as many elements as the shape has, all of
  them zero. The shape and the dtype of a value are those of the array, or the tuple
  of those of its blocks.
\<close>

theorem Function_init_output_inference:
  assumes "Function_init jax_jit cls_eval ishapes oshape eval_fn idt odt jit = Inr F"
  shows "(case oshape of
            Some s \<Rightarrow> output_shape F = s
          | None \<Rightarrow>
              (\<exists>tmp. eval_method F (init_zeros (input_shapes F) (input_dtypes F)) = Inr tmp \<and>
                     output_shape F = shape_of tmp))
       \<and> (case odt of
            Some d \<Rightarrow> output_dtype F = d
          | None \<Rightarrow>
              (\<exists>tmp. eval_method F (init_zeros (input_shapes F) (input_dtypes F)) = Inr tmp \<and>
                     output_dtype F = dtype_of tmp))
       \<and> (\<forall>s d ev. init_eval jax_jit cls_eval eval_fn jit = Some ev \<longrightarrow>
            Function_init jax_jit cls_eval ishapes (Some s) eval_fn idt (Some d) jit
              = Inr \<lparr>input_shapes = ishapes, input_dtypes = init_input_dtypes ishapes idt,
                     eval_method = ev, output_shape = s, output_dtype = d\<rparr>)
       \<and> input_shapes F = ishapes
       \<and> input_dtypes F =
           (case idt of Seq ds \<Rightarrow> ds | Single d \<Rightarrow> replicate (length ishapes) d)
       \<and> Some (eval_method F) =
           (case eval_fn of Some f \<Rightarrow> Some (if jit then jax_jit f else f) | None \<Rightarrow> cls_eval)
       \<and> length (init_zeros (input_shapes F) (input_dtypes F))
           = min (length (input_shapes F)) (length (input_dtypes F))
       \<and> (\<forall>i < min (length (input_shapes F)) (length (input_dtypes F)).
            init_zeros (input_shapes F) (input_dtypes F) ! i =
              (case input_shapes F ! i of
                 Shape s \<Rightarrow>
                   JaxArray (NdArray s (input_dtypes F ! i) (replicate (prod_list s) 0))
               | BlockShape ss \<Rightarrow>
                   BlockArray
                     (map (\<lambda>s. NdArray s (input_dtypes F ! i) (replicate (prod_list s) 0)) ss)))
       \<and> (\<forall>a :: 'a array.
            shape_of a =
              (case a of JaxArray n \<Rightarrow> Shape (nd_shape n)
                       | BlockArray bs \<Rightarrow> BlockShape (map nd_shape bs)) \<and>
            dtype_of a =
              (case a of JaxArray n \<Rightarrow> DType (nd_dtype n)
                       | BlockArray bs \<Rightarrow> BlockDType (map nd_dtype bs)))"
proof -
  have out: "(case oshape of
            Some s \<Rightarrow> output_shape F = s
          | None \<Rightarrow>
              (\<exists>tmp. eval_method F (init_zeros (input_shapes F) (input_dtypes F)) = Inr tmp \<and>
                     output_shape F = shape_of tmp))
       \<and> (case odt of
            Some d \<Rightarrow> output_dtype F = d
          | None \<Rightarrow>
              (\<exists>tmp. eval_method F (init_zeros (input_shapes F) (input_dtypes F)) = Inr tmp \<and>
                     output_dtype F = dtype_of tmp))
       \<and> (\<forall>s d ev. init_eval jax_jit cls_eval eval_fn jit = Some ev \<longrightarrow>
            Function_init jax_jit cls_eval ishapes (Some s) eval_fn idt (Some d) jit
              = Inr \<lparr>input_shapes = ishapes, input_dtypes = init_input_dtypes ishapes idt,
                     eval_method = ev, output_shape = s, output_dtype = d\<rparr>)"
    using assms
    by (auto simp: Function_init_def init_eval_def Let_def
             split: option.splits sum.splits prod.splits)
  have stored: "input_shapes F = ishapes
       \<and> input_dtypes F =
           (case idt of Seq ds \<Rightarrow> ds | Single d \<Rightarrow> replicate (length ishapes) d)
       \<and> Some (eval_method F) =
           (case eval_fn of Some f \<Rightarrow> Some (if jit then jax_jit f else f) | None \<Rightarrow> cls_eval)"
    using assms
    by (auto simp: Function_init_def init_eval_def init_input_dtypes_def Let_def
             split: option.splits sum.splits prod.splits)
  have zs: "\<forall>i < min (length (input_shapes F)) (length (input_dtypes F)).
            init_zeros (input_shapes F) (input_dtypes F) ! i =
              (case input_shapes F ! i of
                 Shape s \<Rightarrow>
                   JaxArray (NdArray s (input_dtypes F ! i) (replicate (prod_list s) 0))
               | BlockShape ss \<Rightarrow>
                   BlockArray
                     (map (\<lambda>s. NdArray s (input_dtypes F ! i) (replicate (prod_list s) 0)) ss))"
    using init_zeros_nth by blast
  have sd: "\<forall>a :: 'a array.
            shape_of a =
              (case a of JaxArray n \<Rightarrow> Shape (nd_shape n)
                       | BlockArray bs \<Rightarrow> BlockShape (map nd_shape bs)) \<and>
            dtype_of a =
              (case a of JaxArray n \<Rightarrow> DType (nd_dtype n)
                       | BlockArray bs \<Rightarrow> BlockDType (map nd_dtype bs))"
    using shape_of_cases dtype_of_cases by blast
  from out stored init_zeros_length zs sd show ?thesis by blast
qed

text \<open>
  At concrete inputs. \<^verbatim>\<open>Function(((2, 3),), eval_fn=lambda x: x.ravel(),
  input_dtypes=complex64)\<close> infers the output shape \<^verbatim>\<open>(6,)\<close>, the number of zeros built,
  and the dtype \<^verbatim>\<open>complex64\<close>. With the shapes \<^verbatim>\<open>(2,)\<close> and \<^verbatim>\<open>((2,), (1,))\<close>, the dtypes
  \<^verbatim>\<open>[complex64, float64]\<close> and \<^verbatim>\<open>eval_fn=lambda x, y: y\<close> the outputs are those of the
  second zero array. \<^verbatim>\<open>Function(((2, 3),), eval_fn=lambda x: x)\<close> infers \<^verbatim>\<open>(2, 3)\<close> and
  \<^verbatim>\<open>float32\<close>, and with both outputs given the constructor succeeds for a function that
  raises on every call.
\<close>

theorem Function_init_output_inference_witness:
  "Function_init id None [Shape [2, 3]] None (Some lambda_id) (Single Float32) None False
     = Inr \<lparr>input_shapes = [Shape [2, 3]], input_dtypes = [Float32],
            eval_method = lambda_id, output_shape = Shape [2, 3],
            output_dtype = DType Float32\<rparr>
   \<and> Function_init id None [Shape [2, 3]] (Some (Shape [5])) (Some lambda_raise)
       (Single Float32) (Some (DType Float64)) False
     = Inr \<lparr>input_shapes = [Shape [2, 3]], input_dtypes = [Float32],
            eval_method = lambda_raise, output_shape = Shape [5],
            output_dtype = DType Float64\<rparr>
   \<and> Function_init id None [Shape [2, 3]] None (Some lambda_ravel) (Single Complex64) None False
     = Inr \<lparr>input_shapes = [Shape [2, 3]], input_dtypes = [Complex64],
            eval_method = lambda_ravel, output_shape = Shape [6],
            output_dtype = DType Complex64\<rparr>
   \<and> init_zeros [Shape [2, 3]] [Complex64] ! 0
     = JaxArray (NdArray [2, 3] Complex64 [0, 0, 0, 0, 0, (0::int)])
   \<and> Function_init id None [Shape [2], BlockShape [[2], [1]]] None (Some lambda_snd)
       (Seq [Complex64, Float64]) None False
     = Inr \<lparr>input_shapes = [Shape [2], BlockShape [[2], [1]]],
            input_dtypes = [Complex64, Float64],
            eval_method = lambda_snd, output_shape = BlockShape [[2], [1]],
            output_dtype = BlockDType [Float64, Float64]\<rparr>"
proof -
  let ?F = "\<lparr>input_shapes = [Shape [2, 3]], input_dtypes = [Float32],
            eval_method = lambda_id, output_shape = Shape [2, 3],
            output_dtype = DType Float32\<rparr>"
  have h: "Function_init id None [Shape [2, 3]] None (Some lambda_id) (Single Float32)
             None False = Inr ?F"
    by (simp add: Function_init_defs lambda_id_def nd_zeros_def)
  let ?G = "\<lparr>input_shapes = [Shape [2, 3]], input_dtypes = [Float32],
            eval_method = lambda_raise, output_shape = Shape [5],
            output_dtype = DType Float64\<rparr>"
  have g: "Function_init id None [Shape [2, 3]] (Some (Shape [5])) (Some lambda_raise)
             (Single Float32) (Some (DType Float64)) False = Inr ?G"
    by (simp add: Function_init_defs)
  let ?R = "\<lparr>input_shapes = [Shape [2, 3]], input_dtypes = [Complex64],
            eval_method = lambda_ravel, output_shape = Shape [6],
            output_dtype = DType Complex64\<rparr>"
  have r: "Function_init id None [Shape [2, 3]] None (Some lambda_ravel) (Single Complex64)
             None False = Inr ?R"
    by (simp add: Function_init_defs lambda_ravel_def nd_ravel_def nd_zeros_def)
  let ?S = "\<lparr>input_shapes = [Shape [2], BlockShape [[2], [1]]],
            input_dtypes = [Complex64, Float64],
            eval_method = lambda_snd, output_shape = BlockShape [[2], [1]],
            output_dtype = BlockDType [Float64, Float64]\<rparr>"
  have s: "Function_init id None [Shape [2], BlockShape [[2], [1]]] None (Some lambda_snd)
             (Seq [Complex64, Float64]) None False = Inr ?S"
    by (simp add: Function_init_defs lambda_snd_def nd_zeros_def)
  have e: "init_eval id None (Some lambda_raise) False = Some lambda_raise"
    by (simp add: init_eval_def)
  from Function_init_output_inference [OF h, THEN conjunct1]
  have "\<exists>tmp. eval_method ?F (init_zeros (input_shapes ?F) (input_dtypes ?F)) = Inr tmp \<and>
          output_shape ?F = shape_of tmp"
    by simp
  from Function_init_output_inference [OF g, THEN conjunct2, THEN conjunct2, THEN conjunct1] e
  have g': "Function_init id None [Shape [2, 3]] (Some (Shape [5])) (Some lambda_raise)
          (Single Float32) (Some (DType Float64)) False
        = Inr \<lparr>input_shapes = [Shape [2, 3]],
               input_dtypes = init_input_dtypes [Shape [2, 3]] (Single Float32),
               eval_method = lambda_raise, output_shape = Shape [5],
               output_dtype = DType Float64\<rparr>"
    by blast
  from Function_init_output_inference [OF r, THEN conjunct2, THEN conjunct2,
      THEN conjunct2, THEN conjunct2, THEN conjunct2, THEN conjunct2, THEN conjunct2,
      THEN conjunct1]
  have "\<forall>i < min (length (input_shapes ?R)) (length (input_dtypes ?R)).
            init_zeros (input_shapes ?R) (input_dtypes ?R) ! i =
              (case input_shapes ?R ! i of
                 Shape s \<Rightarrow>
                   JaxArray (NdArray s (input_dtypes ?R ! i) (replicate (prod_list s) 0))
               | BlockShape ss \<Rightarrow>
                   BlockArray
                     (map (\<lambda>s. NdArray s (input_dtypes ?R ! i) (replicate (prod_list s) 0)) ss))"
    by blast
  then have z: "init_zeros [Shape [2, 3]] [Complex64] ! 0
     = JaxArray (NdArray [2, 3] Complex64 [0, 0, 0, 0, 0, (0::int)])"
    by (simp add: numeral_eq_Suc)
  from h g' r z s show ?thesis by (simp add: init_input_dtypes_def)
qed

section \<open>Properties of stats_obj\<close>

lemma itstat_source_text:
  "itstat_source =
     ''def itstat_func(obj): return(obj.epoch, obj.time, obj.train_learning_rate, obj.train_loss, obj.train_snr, obj.loss, obj.snr)''"
  by (simp add: itstat_source_def itstat_return_def itstat_attrib_def)

lemma parse_itstat_source: "parse_def itstat_source = Some itstat_func_ast"
  by code_simp

lemma stats_obj_value:
  "(stats_obj :: exec_error + ('v IterationStats \<times> optval))
     = Inr (\<lparr>ist_fields = itstat_fields, ist_display = True, ist_period = None,
             iterations = []\<rparr>, Func itstat_func_ast)"
  unfolding stats_obj_def exec_def parse_itstat_source
  by (simp add: getitem_def itstat_func_ast_def dict_pop_def default_itstat_options_def
        IterationStats_init_def)

lemma call_itstat_func_ast:
  "call (Func itstat_func_ast) obj = Inr r \<longleftrightarrow>
     (\<exists>e t lr tl ts l s.
        obj ''epoch'' = Some e \<and> obj ''time'' = Some t \<and>
        obj ''train_learning_rate'' = Some lr \<and> obj ''train_loss'' = Some tl \<and>
        obj ''train_snr'' = Some ts \<and> obj ''loss'' = Some l \<and> obj ''snr'' = Some s \<and>
        r = Tuple [e, t, lr, tl, ts, l, s])"
  by (auto simp: call_def call_func_def itstat_func_ast_def getattr_def
           split: option.splits sum.splits)

text \<open>
  Claim C7. \<^verbatim>\<open>stats_obj\<close> executes the text
  \<^verbatim>\<open>def itstat_func(obj): return(obj.epoch, ..., obj.snr)\<close> built from the attribute list,
  and returns a recorder together with the function so defined. The recorder has the 7
  field names of lines 529-537 in order. The function, called on an object, returns a
  value exactly when the object has the 7 attributes, and the value is then the tuple
  \<^verbatim>\<open>(obj.epoch, obj.time, obj.train_learning_rate, obj.train_loss, obj.train_snr, obj.loss, obj.snr)\<close>:
  7 elements, paired in order with the 7 field names.
\<close>

theorem stats_obj_itstat_insert_func:
  "\<exists>io fn.
     (stats_obj :: exec_error + ('v IterationStats \<times> optval)) = Inr (io, fn) \<and>
     exec itstat_source Map.empty = Inr [''itstat_func'' \<mapsto> itstat_func_ast] \<and>
     fn = Func itstat_func_ast \<and>
     fieldname io = [''Epoch'', ''Time'', ''Train LR'', ''Train Loss'', ''Train SNR'',
                     ''Eval Loss'', ''Eval SNR''] \<and>
     length (fieldname io) = 7 \<and> length itstat_attrib = 7 \<and>
     zip (fieldname io) itstat_attrib =
       [(''Epoch'', ''epoch''), (''Time'', ''time''), (''Train LR'', ''train_learning_rate''),
        (''Train Loss'', ''train_loss''), (''Train SNR'', ''train_snr''),
        (''Eval Loss'', ''loss''), (''Eval SNR'', ''snr'')] \<and>
     (\<forall>(obj :: 'w pyobject) r.
        call fn obj = Inr r \<longleftrightarrow>
          (\<exists>e t lr tl ts l s.
             obj ''epoch'' = Some e \<and> obj ''time'' = Some t \<and>
             obj ''train_learning_rate'' = Some lr \<and> obj ''train_loss'' = Some tl \<and>
             obj ''train_snr'' = Some ts \<and> obj ''loss'' = Some l \<and> obj ''snr'' = Some s \<and>
             r = Tuple [e, t, lr, tl, ts, l, s]))"
proof (intro exI conjI allI)
  show "(stats_obj :: exec_error + ('v IterationStats \<times> optval))
          = Inr (\<lparr>ist_fields = itstat_fields, ist_display = True, ist_period = None,
                  iterations = []\<rparr>, Func itstat_func_ast)"
    by (rule stats_obj_value)
  show "exec itstat_source Map.empty = Inr [''itstat_func'' \<mapsto> itstat_func_ast]"
    unfolding exec_def parse_itstat_source by (simp add: itstat_func_ast_def)
  show "Func itstat_func_ast = Func itstat_func_ast"
    by (rule refl)
  show names: "fieldname \<lparr>ist_fields = itstat_fields, ist_display = True, ist_period = None,
                 iterations = ([] :: 'v list list)\<rparr>
               = [''Epoch'', ''Time'', ''Train LR'', ''Train Loss'', ''Train SNR'',
                  ''Eval Loss'', ''Eval SNR'']"
    by (simp add: fieldname_def itstat_fields_def)
  show "length (fieldname \<lparr>ist_fields = itstat_fields, ist_display = True,
                  ist_period = None, iterations = ([] :: 'v list list)\<rparr>) = 7"
    unfolding names by simp
  show "length itstat_attrib = 7"
    by (simp add: itstat_attrib_def)
  show "zip (fieldname \<lparr>ist_fields = itstat_fields, ist_display = True,
               ist_period = None, iterations = ([] :: 'v list list)\<rparr>) itstat_attrib =
       [(''Epoch'', ''epoch''), (''Time'', ''time''), (''Train LR'', ''train_learning_rate''),
        (''Train Loss'', ''train_loss''), (''Train SNR'', ''train_snr''),
        (''Eval Loss'', ''loss''), (''Eval SNR'', ''snr'')]"
    unfolding names by (simp add: itstat_attrib_def)
  show "call (Func itstat_func_ast) obj = Inr r \<longleftrightarrow>
          (\<exists>e t lr tl ts l s.
             obj ''epoch'' = Some e \<and> obj ''time'' = Some t \<and>
             obj ''train_learning_rate'' = Some lr \<and> obj ''train_loss'' = Some tl \<and>
             obj ''train_snr'' = Some ts \<and> obj ''loss'' = Some l \<and> obj ''snr'' = Some s \<and>
             r = Tuple [e, t, lr, tl, ts, l, s])" for obj :: "'w pyobject" and r
    by (rule call_itstat_func_ast)
qed

text \<open>
  At the object with \<^verbatim>\<open>epoch = 3, time = 14, train_learning_rate = 1, train_loss = 5,
  train_snr = 9, loss = 2, snr = 6\<close> the returned function gives the tuple in that order.
\<close>

theorem stats_obj_itstat_insert_func_witness:
  "\<exists>io fn.
     (stats_obj :: exec_error + (int IterationStats \<times> optval)) = Inr (io, fn) \<and>
     call fn [''snr'' \<mapsto> 6, ''loss'' \<mapsto> 2, ''train_snr'' \<mapsto> 9, ''train_loss'' \<mapsto> 5,
              ''train_learning_rate'' \<mapsto> 1, ''time'' \<mapsto> 14, ''epoch'' \<mapsto> (3::int)]
       = Inr (Tuple [3, 14, 1, 5, 9, 2, 6])"
proof -
  let ?obj = "[''snr'' \<mapsto> 6, ''loss'' \<mapsto> 2, ''train_snr'' \<mapsto> 9, ''train_loss'' \<mapsto> 5,
              ''train_learning_rate'' \<mapsto> 1, ''time'' \<mapsto> 14, ''epoch'' \<mapsto> (3::int)]"
  from stats_obj_itstat_insert_func [where 'v = int and 'w = int]
  obtain io fn where so: "(stats_obj :: exec_error + (int IterationStats \<times> optval)) = Inr (io, fn)"
    and c: "\<forall>(obj :: int pyobject) r. call fn obj = Inr r \<longleftrightarrow>
          (\<exists>e t lr tl ts l s.
             obj ''epoch'' = Some e \<and> obj ''time'' = Some t \<and>
             obj ''train_learning_rate'' = Some lr \<and> obj ''train_loss'' = Some tl \<and>
             obj ''train_snr'' = Some ts \<and> obj ''loss'' = Some l \<and> obj ''snr'' = Some s \<and>
             r = Tuple [e, t, lr, tl, ts, l, s])"
    by (elim exE conjE) (rule that, assumption+)
  have "\<exists>e t lr tl ts l s.
             ?obj ''epoch'' = Some e \<and> ?obj ''time'' = Some t \<and>
             ?obj ''train_learning_rate'' = Some lr \<and> ?obj ''train_loss'' = Some tl \<and>
             ?obj ''train_snr'' = Some ts \<and> ?obj ''loss'' = Some l \<and> ?obj ''snr'' = Some s \<and>
             Tuple [3, 14, 1, 5, 9, 2, 6] = Tuple [e, t, lr, tl, ts, l, s]"
    by simp
  with c [rule_format, of ?obj "Tuple [3, 14, 1, 5, 9, 2, 6]"]
  have "call fn ?obj = Inr (Tuple [3, 14, 1, 5, 9, 2, 6])"
    by (rule iffD2)
  with so show ?thesis by (intro exI conjI)
qed

section \<open>Properties of the solver loop\<close>

lemma iteration_callback: "iteration P sf (Some cb) s = cb (iteration P sf None s)"
  by (simp add: iteration_def Let_def)

lemma iteration_None_fields [simp]:
  "itnum (iteration P sf None s) = Suc (itnum s)"
  "stop_flag (iteration P sf None s) = stop_flag s"
  "maxiter (iteration P sf None s) = maxiter s"
  "attrs (iteration P sf None s) = attrs s"
  "iterations (itstat_object (iteration P sf None s)) = iterations (itstat_object s) @ [sf ((step P s)\<lparr>itnum := Suc (itnum s)\<rparr>)]"
  by (simp_all add: iteration_def Let_def step_def insert_row_def)

lemma run_last_callback:
  "0 < n \<Longrightarrow> \<not> stop_flag s \<Longrightarrow> \<exists>t. run n P sf (Some cb) s = cb t"
proof (induction n arbitrary: s)
  case 0 then show ?case by simp
next
  case (Suc n)
  let ?s' = "iteration P sf (Some cb) s"
  show ?case
  proof (cases "n = 0 \<or> stop_flag ?s'")
    case True
    then have "run (Suc n) P sf (Some cb) s = ?s'" using Suc.prems by (cases n) auto
    then show ?thesis by (auto simp: iteration_callback)
  next
    case False
    then have "\<exists>t. run n P sf (Some cb) ?s' = cb t" using Suc.IH by simp
    then show ?thesis using Suc.prems by simp
  qed
qed

lemma run_no_stop:
  "\<not> stop_flag s \<Longrightarrow> (\<And>t. \<not> stop_flag t \<Longrightarrow> \<not> stop_flag (iteration P sf cb t)) \<Longrightarrow>
   run n P sf cb s = (iteration P sf cb ^^ n) s"
proof (induction n arbitrary: s)
  case 0 then show ?case by simp
next
  case (Suc n)
  then show ?case by (simp add: funpow_swap1)
qed

lemma run_bounded: "\<exists>k\<le>n. run n P sf cb s = (iteration P sf cb ^^ k) s"
proof (induction n arbitrary: s)
  case 0 then show ?case by simp
next
  case (Suc n)
  show ?case
  proof (cases "stop_flag s")
    case True then show ?thesis by (intro exI[of _ 0]) simp
  next
    case False
    from Suc.IH obtain k where "k \<le> n" "run n P sf cb (iteration P sf cb s) = (iteration P sf cb ^^ k) (iteration P sf cb s)" by blast
    then show ?thesis using False by (intro exI[of _ "Suc k"]) (simp add: funpow_swap1)
  qed
qed

lemma run_executed:
  "\<not> stop_flag s \<Longrightarrow> 0 < n \<Longrightarrow>
   \<exists>k. 0 < k \<and> k \<le> n \<and> run n P sf cb s = (iteration P sf cb ^^ k) s \<and>
       (\<forall>j<k. \<not> stop_flag ((iteration P sf cb ^^ j) s)) \<and>
       (k < n \<longrightarrow> stop_flag (run n P sf cb s))"
proof (induction n arbitrary: s)
  case 0
  then show ?case by simp
next
  case (Suc n)
  let ?s' = "iteration P sf cb s"
  have first: "run (Suc n) P sf cb s = run n P sf cb ?s'"
    using Suc.prems by simp
  show ?case
  proof (cases "n = 0 \<or> stop_flag ?s'")
    case True
    then have stop: "run n P sf cb ?s' = ?s'" by (cases n) auto
    have "0 < (1::nat) \<and> 1 \<le> Suc n \<and> run (Suc n) P sf cb s = (iteration P sf cb ^^ 1) s \<and>
          (\<forall>j<1. \<not> stop_flag ((iteration P sf cb ^^ j) s)) \<and>
          (1 < Suc n \<longrightarrow> stop_flag (run (Suc n) P sf cb s))"
      using True Suc.prems first stop by auto
    then show ?thesis by blast
  next
    case False
    then have "\<not> stop_flag ?s'" and "0 < n" by simp_all
    from Suc.IH [OF this]
    obtain k where k: "0 < k" "k \<le> n" "run n P sf cb ?s' = (iteration P sf cb ^^ k) ?s'"
      "\<forall>j<k. \<not> stop_flag ((iteration P sf cb ^^ j) ?s')"
      "k < n \<longrightarrow> stop_flag (run n P sf cb ?s')"
      by blast
    have flags: "\<forall>j<Suc k. \<not> stop_flag ((iteration P sf cb ^^ j) s)"
    proof (intro allI impI)
      fix j assume "j < Suc k"
      show "\<not> stop_flag ((iteration P sf cb ^^ j) s)"
      proof (cases j)
        case 0
        then show ?thesis using Suc.prems by simp
      next
        case (Suc i)
        with \<open>j < Suc k\<close> have "i < k" by simp
        with k(4) have "\<not> stop_flag ((iteration P sf cb ^^ i) ?s')" by blast
        then show ?thesis using Suc by (simp add: funpow_swap1)
      qed
    qed
    have "0 < Suc k \<and> Suc k \<le> Suc n \<and>
          run (Suc n) P sf cb s = (iteration P sf cb ^^ Suc k) s \<and>
          (\<forall>j<Suc k. \<not> stop_flag ((iteration P sf cb ^^ j) s)) \<and>
          (Suc k < Suc n \<longrightarrow> stop_flag (run (Suc n) P sf cb s))"
      using k first flags by (simp add: funpow_swap1)
    then show ?thesis by blast
  qed
qed

lemma funpow_iteration_None:
  "itnum ((iteration P sf None ^^ n) s) = itnum s + n"
  "length (iterations (itstat_object ((iteration P sf None ^^ n) s))) = length (iterations (itstat_object s)) + n"
  "stop_flag ((iteration P sf None ^^ n) s) = stop_flag s"
  by (induction n) simp_all


lemma test_solver_init:
  "NonLinearPADMM_init test_options 1 1 1 0 0 0 2 = Inr test_solver"
  by (simp add: NonLinearPADMM_init_def test_options_def test_itstat_func_def test_solver_def)

text \<open>
  Claim C2. In every iteration the callback is called with the solver object the
  iteration has just updated, and the loop goes on with what the callback returns. So
  for a solver that has at least one iteration left and whose flag is down (any freshly
  constructed solver, \<^verbatim>\<open>maxiter \<ge> 1\<close>), the object after \<^verbatim>\<open>solve\<close> is the result of the
  last call of the callback: an attribute the callback sets on every call has that
  value on the object after \<^verbatim>\<open>solve\<close> returns. For every callback, \<^verbatim>\<open>solve\<close> is some
  number \<open>n \<ge> 1\<close> of rounds "one iteration, then the callback on its result", with
  the flag down before each round; \<open>n\<close> is the whole budget unless the callback raised
  the flag. For a callback that does not raise the flag (it leaves a flag that is down
  down, as the test's callback does) \<open>n\<close> is the budget \<^verbatim>\<open>maxiter - itnum\<close>: the callback
  is called exactly once in each iteration.
\<close>

theorem solve_callback_observable:
  assumes "itnum s < maxiter s" and "\<not> stop_flag s"
  shows "(\<exists>t. snd (solve P sf (Some cb) s) = cb t)
       \<and> iteration P sf (Some cb) s = cb (iteration P sf None s)
       \<and> ((\<forall>t. attrs (cb t) k = Some v) \<longrightarrow> attrs (snd (solve P sf (Some cb) s)) k = Some v)
       \<and> ((\<forall>t. \<not> stop_flag t \<longrightarrow> \<not> stop_flag (cb t)) \<longrightarrow>
            snd (solve P sf (Some cb) s)
              = ((\<lambda>t. cb (iteration P sf None t)) ^^ (maxiter s - itnum s)) s)
       \<and> (\<exists>n. 0 < n \<and> n \<le> maxiter s - itnum s \<and>
              snd (solve P sf (Some cb) s) = ((\<lambda>t. cb (iteration P sf None t)) ^^ n) s \<and>
              (\<forall>j<n. \<not> stop_flag (((\<lambda>t. cb (iteration P sf None t)) ^^ j) s)) \<and>
              (n < maxiter s - itnum s \<longrightarrow> stop_flag (snd (solve P sf (Some cb) s))))"
proof -
  from assms have pos: "0 < maxiter s - itnum s" by simp
  have eq: "iteration P sf (Some cb) = (\<lambda>t. cb (iteration P sf None t))"
    by (rule ext) (rule iteration_callback)
  have sol: "snd (solve P sf (Some cb) s) = run (maxiter s - itnum s) P sf (Some cb) s"
    by (simp add: solve_def Let_def)
  from run_last_callback [OF pos assms(2)]
  obtain t where t: "run (maxiter s - itnum s) P sf (Some cb) s = cb t" by blast
  have last: "\<exists>t. snd (solve P sf (Some cb) s) = cb t"
    using t sol by auto
  have attr: "(\<forall>t. attrs (cb t) k = Some v) \<longrightarrow> attrs (snd (solve P sf (Some cb) s)) k = Some v"
    using t sol by simp
  have every: "(\<forall>t. \<not> stop_flag t \<longrightarrow> \<not> stop_flag (cb t)) \<longrightarrow>
            snd (solve P sf (Some cb) s)
              = ((\<lambda>t. cb (iteration P sf None t)) ^^ (maxiter s - itnum s)) s"
  proof
    assume ns: "\<forall>t. \<not> stop_flag t \<longrightarrow> \<not> stop_flag (cb t)"
    have "run (maxiter s - itnum s) P sf (Some cb) s
            = (iteration P sf (Some cb) ^^ (maxiter s - itnum s)) s"
      using assms(2) ns by (intro run_no_stop) (simp_all add: iteration_callback)
    then show "snd (solve P sf (Some cb) s)
              = ((\<lambda>t. cb (iteration P sf None t)) ^^ (maxiter s - itnum s)) s"
      by (simp add: sol eq)
  qed
  from run_executed [OF assms(2) pos, of P sf "Some cb"]
  have rounds: "\<exists>n. 0 < n \<and> n \<le> maxiter s - itnum s \<and>
              snd (solve P sf (Some cb) s) = ((\<lambda>t. cb (iteration P sf None t)) ^^ n) s \<and>
              (\<forall>j<n. \<not> stop_flag (((\<lambda>t. cb (iteration P sf None t)) ^^ j) s)) \<and>
              (n < maxiter s - itnum s \<longrightarrow> stop_flag (snd (solve P sf (Some cb) s)))"
    unfolding sol eq .
  from last iteration_callback attr every rounds show ?thesis by blast
qed

text \<open>
  The test's scenario: \<^verbatim>\<open>test_flag\<close> is \<^verbatim>\<open>False\<close> before \<^verbatim>\<open>solve\<close> and \<^verbatim>\<open>True\<close> after it,
  and the two iterations are still counted; the counting callback has been called twice
  when \<^verbatim>\<open>solve\<close> returns with \<^verbatim>\<open>maxiter = 2\<close>.
\<close>

theorem solve_callback_observable_witness:
  "itnum (test_solver\<lparr>attrs := [''test_flag'' \<mapsto> False]\<rparr>)
     < maxiter (test_solver\<lparr>attrs := [''test_flag'' \<mapsto> False]\<rparr>)
   \<and> attrs (snd (solve test_problem test_itstat_func (Some test_callback)
               (test_solver\<lparr>attrs := [''test_flag'' \<mapsto> False]\<rparr>))) ''test_flag'' = Some True
   \<and> itnum (snd (solve test_problem test_itstat_func (Some test_callback)
               (test_solver\<lparr>attrs := [''test_flag'' \<mapsto> False]\<rparr>))) = 2
   \<and> primal_x (snd (solve test_problem test_itstat_func (Some count_callback) test_solver)) = 2"
proof -
  let ?s = "test_solver\<lparr>attrs := [''test_flag'' \<mapsto> False]\<rparr>"
  have a: "itnum ?s < maxiter ?s" by (simp add: test_solver_def)
  have b: "\<not> stop_flag ?s" by (simp add: test_solver_def)
  have c: "\<forall>t. attrs (test_callback t) ''test_flag'' = Some True"
    by (simp add: test_callback_def)
  have n: "\<forall>t. \<not> stop_flag t \<longrightarrow> \<not> stop_flag (test_callback t)"
    by (simp add: test_callback_def)
  note th = solve_callback_observable [OF a b, of test_problem test_itstat_func test_callback
      "''test_flag''" True]
  from th c
  have flag: "attrs (snd (solve test_problem test_itstat_func (Some test_callback) ?s))
                ''test_flag'' = Some True"
    by blast
  from th n
  have "snd (solve test_problem test_itstat_func (Some test_callback) ?s)
          = ((\<lambda>t. test_callback (iteration test_problem test_itstat_func None t))
               ^^ (maxiter ?s - itnum ?s)) ?s"
    by blast
  then have its: "itnum (snd (solve test_problem test_itstat_func (Some test_callback) ?s)) = 2"
    by (simp add: test_solver_def test_callback_def numeral_2_eq_2)
  have a': "itnum test_solver < maxiter test_solver" by (simp add: test_solver_def)
  have b': "\<not> stop_flag test_solver" by (simp add: test_solver_def)
  have n': "\<forall>t. \<not> stop_flag t \<longrightarrow> \<not> stop_flag (count_callback t)"
    by (simp add: count_callback_def)
  from solve_callback_observable [OF a' b', of test_problem test_itstat_func count_callback] n'
  have "snd (solve test_problem test_itstat_func (Some count_callback) test_solver)
          = ((\<lambda>t. count_callback (iteration test_problem test_itstat_func None t))
               ^^ (maxiter test_solver - itnum test_solver)) test_solver"
    by blast
  then have cnt: "primal_x (snd (solve test_problem test_itstat_func (Some count_callback)
                    test_solver)) = 2"
    by (simp add: test_solver_def count_callback_def numeral_2_eq_2 iteration_def step_def
          test_problem_def Let_def)
  from a flag its cnt show ?thesis by blast
qed

text \<open>
  Claim C6. For every solver the constructor accepts, and whatever the collaborators
  \<open>P\<close> compute (so whatever residual is reached), \<^verbatim>\<open>solve\<close> without a callback returns
  after exactly \<^verbatim>\<open>maxiter\<close> iterations: the counter and the length of the history are
  \<^verbatim>\<open>maxiter\<close>, and the value returned is the primal iterate of the final state. The same
  holds with a callback that does not raise the flag; with any callback \<^verbatim>\<open>solve\<close> returns
  after at most \<^verbatim>\<open>maxiter\<close> iterations. \<open>solve\<close> is a total function with no error result:
  nothing in it tests a residual.
\<close>

theorem solve_runs_maxiter_iterations:
  assumes "NonLinearPADMM_init opts r m n x0 z0 u0 mxit = Inr s"
  shows "0 < mxit
       \<and> snd (solve P sf None s) = (iteration P sf None ^^ nat mxit) s
       \<and> itnum (snd (solve P sf None s)) = nat mxit
       \<and> length (iterations (itstat_object (snd (solve P sf None s)))) = nat mxit
       \<and> fst (solve P sf None s) = primal_x (snd (solve P sf None s))
       \<and> (\<forall>c. (\<forall>t. \<not> stop_flag t \<longrightarrow> \<not> stop_flag (c t)) \<longrightarrow>
             snd (solve P sf (Some c) s) = (iteration P sf (Some c) ^^ nat mxit) s)
       \<and> (\<forall>cb. \<exists>k\<le>nat mxit. snd (solve P sf cb s) = (iteration P sf cb ^^ k) s)"
proof -
  from assms have pos: "0 < mxit"
    and fresh: "itnum s = 0" "maxiter s = nat mxit" "\<not> stop_flag s"
      "iterations (itstat_object s) = []"
    by (auto simp: NonLinearPADMM_init_def Let_def split: if_splits)
  have r: "run (nat mxit) P sf None s = (iteration P sf None ^^ nat mxit) s"
    using fresh(3) by (intro run_no_stop) simp_all
  have s1: "snd (solve P sf None s) = (iteration P sf None ^^ nat mxit) s"
    using r fresh by (simp add: solve_def Let_def)
  have s2: "itnum (snd (solve P sf None s)) = nat mxit"
    unfolding s1 using fresh by (simp add: funpow_iteration_None)
  have s3: "length (iterations (itstat_object (snd (solve P sf None s)))) = nat mxit"
    unfolding s1 using fresh by (simp add: funpow_iteration_None)
  have s4: "fst (solve P sf None s) = primal_x (snd (solve P sf None s))"
    by (simp add: solve_def Let_def)
  have s5: "snd (solve P sf (Some c) s) = (iteration P sf (Some c) ^^ nat mxit) s"
    if ns: "\<forall>t. \<not> stop_flag t \<longrightarrow> \<not> stop_flag (c t)" for c
  proof -
    have "run (nat mxit) P sf (Some c) s = (iteration P sf (Some c) ^^ nat mxit) s"
      using fresh(3) ns by (intro run_no_stop) (simp_all add: iteration_callback)
    then show ?thesis
      using fresh by (simp add: solve_def Let_def)
  qed
  have s6: "\<forall>cb. \<exists>k\<le>nat mxit. snd (solve P sf cb s) = (iteration P sf cb ^^ k) s"
  proof
    fix cb
    from run_bounded [of "nat mxit" P sf cb s]
    show "\<exists>k\<le>nat mxit. snd (solve P sf cb s) = (iteration P sf cb ^^ k) s"
      using fresh by (simp add: solve_def Let_def)
  qed
  from pos s1 s2 s3 s4 s5 s6 show ?thesis by blast
qed

text \<open>The test's scenario: two iterations, two rows of statistics.\<close>

theorem solve_runs_maxiter_iterations_witness:
  "NonLinearPADMM_init test_options 1 1 1 0 0 0 2 = Inr test_solver
   \<and> itnum (snd (solve test_problem test_itstat_func None test_solver)) = 2
   \<and> length (iterations (itstat_object
        (snd (solve test_problem test_itstat_func None test_solver)))) = 2"
proof -
  from solve_runs_maxiter_iterations [OF test_solver_init, of test_problem test_itstat_func]
  have "itnum (snd (solve test_problem test_itstat_func None test_solver)) = nat 2"
    and "length (iterations (itstat_object
        (snd (solve test_problem test_itstat_func None test_solver)))) = nat 2"
    by blast+
  with test_solver_init show ?thesis by simp
qed


end
